theory Spec2Isabelle
  imports Complex_Main "HOL-Library.Log_Nat"
begin

section \<open>Python numbers used by \<^verbatim>\<open>cutter.py\<close>\<close>

text \<open>
  \<^verbatim>\<open>cutter.py\<close> computes the crop box and the gradient colour with Python floats
  (\<^verbatim>\<open>/\<close> is true division). A float is modelled by the rational it denotes, and every
  float operation rounds its exact result to the nearest binary64 value, ties to even
  (\<open>fl\<close>). The exponent range of binary64 is left out: the values of this program are
  far from overflow and underflow.
\<close>

text \<open>Python's \<^verbatim>\<open>round(x)\<close> on a float: the nearest integer, ties to the even one.\<close>

definition py_round :: "rat \<Rightarrow> int" where
  "py_round x =
     (let n = \<lfloor>x\<rfloor>; d = x - of_int n
      in if d < 1 / 2 then n else if 1 / 2 < d then n + 1
         else if even n then n else n + 1)"

text \<open>The binary exponent of a positive rational: \<open>2 powi e \<le> x < 2 powi (e + 1)\<close>.\<close>

definition ilog2 :: "rat \<Rightarrow> int" where
  "ilog2 x =
     (let (a, b) = quotient_of x; d = bitlen a - bitlen b
      in if 2 powi d \<le> x then d else d - 1)"

text \<open>Rounding to binary64: 53 significant bits, ties to even.\<close>

definition fl :: "rat \<Rightarrow> rat" where
  "fl x =
     (if x = 0 then 0
      else let u = 2 powi (ilog2 \<bar>x\<bar> - 52) in of_int (py_round (x / u)) * u)"

text \<open>Python's \<^verbatim>\<open>int(x)\<close> on a float truncates toward zero.\<close>

definition py_int :: "rat \<Rightarrow> int" where
  "py_int x = (if 0 \<le> x then \<lfloor>x\<rfloor> else \<lceil>x\<rceil>)"

text \<open>\<^verbatim>\<open>range(n)\<close>: empty when \<open>n \<le> 0\<close>.\<close>

definition py_range :: "int \<Rightarrow> int list" where
  "py_range n = map int [0..<nat n]"

section \<open>Rasters\<close>

text \<open>
  A raster is a grid of \<open>height\<close> rows of \<open>width\<close> cells. Every operation below builds
  its result with \<open>new_raster\<close>, cell by cell, and reads its argument with \<open>getpixel\<close>.
\<close>

record 'p raster =
  width :: nat
  height :: nat
  rows :: "'p list list"

definition new_raster :: "nat \<Rightarrow> nat \<Rightarrow> (nat \<Rightarrow> nat \<Rightarrow> 'p) \<Rightarrow> 'p raster" where
  "new_raster w h f =
     \<lparr>width = w, height = h, rows = map (\<lambda>y. map (\<lambda>x. f x y) [0..<w]) [0..<h]\<rparr>"

definition getpixel :: "'p raster \<Rightarrow> nat \<Rightarrow> nat \<Rightarrow> 'p" where
  "getpixel im x y = rows im ! y ! x"

type_synonym rgb = "nat \<times> nat \<times> nat"
type_synonym rgba = "nat \<times> nat \<times> nat \<times> nat"

text \<open>
  The decoded image handed to \<^verbatim>\<open>create_feathered_image\<close>: three colour channels, with
  or without an alpha channel (Pillow's modes \<^verbatim>\<open>RGB\<close> and \<^verbatim>\<open>RGBA\<close>).
\<close>

datatype image = ImageRGB "rgb raster" | ImageRGBA "rgba raster"

datatype error = ValueError | OverflowError | BadParameter

type_synonym box = "int \<times> int \<times> int \<times> int"

fun image_size :: "image \<Rightarrow> nat \<times> nat" where
  "image_size (ImageRGB r) = (width r, height r)"
| "image_size (ImageRGBA r) = (width r, height r)"

section \<open>The Pillow operations the program calls\<close>

text \<open>
  Pillow is not part of the repository. Each operation is modelled from Pillow's
  documented behaviour, with the exceptions it raises as \<open>Inl\<close> results.
\<close>

text \<open>A coordinate handed to Pillow's C layer must fit a C \<^verbatim>\<open>int\<close>.\<close>

definition c_int :: "int \<Rightarrow> bool" where
  "c_int v \<longleftrightarrow> - (2 ^ 31) \<le> v \<and> v < 2 ^ 31"

text \<open>
  The C crop: the result has the size of the box (never negative); a cell of the box
  outside the source is filled with the zero pixel.
\<close>

definition crop_raster :: "'p \<Rightarrow> 'p raster \<Rightarrow> box \<Rightarrow> 'p raster" where
  "crop_raster zero im b =
     (case b of (x0, y0, x1, y1) \<Rightarrow>
        new_raster (nat (x1 - x0)) (nat (y1 - y0))
          (\<lambda>x y. let sx = x0 + int x; sy = y0 + int y
                 in if 0 \<le> sx \<and> sx < int (width im) \<and> 0 \<le> sy \<and> sy < int (height im)
                    then getpixel im (nat sx) (nat sy) else zero))"

text \<open>
  \<^verbatim>\<open>Image.crop(box)\<close>: refuses a box whose right is less than its left (or lower less than
  upper), rounds each coordinate with \<^verbatim>\<open>round\<close> and crops.
\<close>

definition crop :: "image \<Rightarrow> rat \<times> rat \<times> rat \<times> rat \<Rightarrow> error + image" where
  "crop im b =
     (case b of (l, t, r, bt) \<Rightarrow>
        if r < l then Inl ValueError
        else if bt < t then Inl ValueError
        else let x0 = py_round l; y0 = py_round t; x1 = py_round r; y1 = py_round bt
             in if \<not> (c_int x0 \<and> c_int y0 \<and> c_int x1 \<and> c_int y1) then Inl OverflowError
                else Inr (case im of
                            ImageRGB r \<Rightarrow> ImageRGB (crop_raster (0, 0, 0) r (x0, y0, x1, y1))
                          | ImageRGBA r \<Rightarrow> ImageRGBA (crop_raster (0, 0, 0, 0) r (x0, y0, x1, y1))))"

text \<open>\<^verbatim>\<open>Image.copy()\<close>: a new image with the same content.\<close>

definition copy :: "image \<Rightarrow> image" where
  "copy im = im"

text \<open>
  \<^verbatim>\<open>convert("RGBA")\<close>: an image without alpha gets alpha 255 everywhere; an image that
  is already RGBA is copied as it is.
\<close>

fun convert_RGBA :: "image \<Rightarrow> rgba raster" where
  "convert_RGBA (ImageRGB r) =
     new_raster (width r) (height r)
       (\<lambda>x y. case getpixel r x y of (rd, gr, bl) \<Rightarrow> (rd, gr, bl, 255))"
| "convert_RGBA (ImageRGBA r) = new_raster (width r) (height r) (getpixel r)"

text \<open>\<^verbatim>\<open>Image.new('L', size, 0)\<close>.\<close>

definition new_L :: "nat \<times> nat \<Rightarrow> nat \<Rightarrow> nat raster" where
  "new_L sz v = new_raster (fst sz) (snd sz) (\<lambda>x y. v)"

text \<open>An integer fill of an 8-bit image is clipped to \<open>0..255\<close>.\<close>

definition clip8 :: "int \<Rightarrow> nat" where
  "clip8 c = nat (max 0 (min 255 c))"

definition in_box :: "box \<Rightarrow> nat \<Rightarrow> nat \<Rightarrow> bool" where
  "in_box b x y =
     (case b of (x0, y0, x1, y1) \<Rightarrow> x0 \<le> int x \<and> int x \<le> x1 \<and> y0 \<le> int y \<and> int y \<le> y1)"

text \<open>
  The ellipse inscribed in a box, on cell coordinates: centre
  \<open>((x0 + x1) / 2, (y0 + y1) / 2)\<close>, semi-axes \<open>(x1 - x0) / 2\<close> and \<open>(y1 - y0) / 2\<close>,
  with the inequality cleared of its denominators. Pillow's own rasteriser may differ
  from it on cells that touch the outline.
\<close>

definition in_ellipse :: "box \<Rightarrow> nat \<Rightarrow> nat \<Rightarrow> bool" where
  "in_ellipse b x y =
     (case b of (x0, y0, x1, y1) \<Rightarrow>
        in_box b x y \<and>
        ((2 * int x - (x0 + x1)) * (y1 - y0))\<^sup>2 + ((2 * int y - (y0 + y1)) * (x1 - x0))\<^sup>2
          \<le> ((x1 - x0) * (y1 - y0))\<^sup>2)"

text \<open>
  \<^verbatim>\<open>ImageDraw.rectangle(xy, fill)\<close> and \<^verbatim>\<open>ImageDraw.ellipse(xy, fill)\<close>: both refuse a box
  with \<open>x1 < x0\<close> or \<open>y1 < y0\<close>; otherwise the covered cells of the image take the
  fill value, both corners of the box included, and the rest is left as it was.
\<close>

definition draw_shape ::
  "(box \<Rightarrow> nat \<Rightarrow> nat \<Rightarrow> bool) \<Rightarrow> nat raster \<Rightarrow> box \<Rightarrow> int \<Rightarrow> error + nat raster" where
  "draw_shape covers msk xy fill =
     (case xy of (x0, y0, x1, y1) \<Rightarrow>
        if x1 < x0 then Inl ValueError
        else if y1 < y0 then Inl ValueError
        else Inr (new_raster (width msk) (height msk)
                    (\<lambda>x y. if covers xy x y then clip8 fill else getpixel msk x y)))"

definition draw_rectangle :: "nat raster \<Rightarrow> box \<Rightarrow> int \<Rightarrow> error + nat raster" where
  "draw_rectangle = draw_shape in_box"

definition draw_ellipse :: "nat raster \<Rightarrow> box \<Rightarrow> int \<Rightarrow> error + nat raster" where
  "draw_ellipse = draw_shape in_ellipse"

text \<open>
  \<^verbatim>\<open>putalpha(mask)\<close> on an RGBA image: the alpha band becomes the mask; the sizes must
  agree.
\<close>

definition putalpha :: "rgba raster \<Rightarrow> nat raster \<Rightarrow> error + rgba raster" where
  "putalpha im msk =
     (if width msk \<noteq> width im \<or> height msk \<noteq> height im then Inl ValueError
      else Inr (new_raster (width im) (height im)
                  (\<lambda>x y. case getpixel im x y of (rd, gr, bl, al) \<Rightarrow>
                            (rd, gr, bl, getpixel msk x y))))"

section \<open>\<^verbatim>\<open>create_feathered_image\<close>\<close>

text \<open>Step 1, lines 26 to 36: the centred square box, moved by the offsets.\<close>

definition crop_box :: "nat \<Rightarrow> nat \<Rightarrow> int \<Rightarrow> int \<Rightarrow> rat \<times> rat \<times> rat \<times> rat" where
  "crop_box w h offset_x offset_y =
     (let crop_size = min w h;
          left = fl (of_int (int w - int crop_size) / 2);
          top = fl (of_int (int h - int crop_size) / 2);
          right = fl (of_int (int w + int crop_size) / 2);
          bottom = fl (of_int (int h + int crop_size) / 2)
      in (fl (left + fl (of_int offset_x)), fl (top + fl (of_int offset_y)),
          fl (right + fl (of_int offset_x)), fl (bottom + fl (of_int offset_y))))"

definition crop_step :: "image \<Rightarrow> bool \<Rightarrow> int \<Rightarrow> int \<Rightarrow> error + image" where
  "crop_step im square offset_x offset_y =
     (if square then
        (case image_size im of (w, h) \<Rightarrow> crop im (crop_box w h offset_x offset_y))
      else Inr (copy im))"

text \<open>Lines 50 to 56.\<close>

definition solid_shape_box :: "nat \<times> nat \<Rightarrow> int \<Rightarrow> box" where
  "solid_shape_box mask_size shape_padding =
     (case mask_size of (mask_width, mask_height) \<Rightarrow>
        (shape_padding, shape_padding,
         int mask_width - shape_padding, int mask_height - shape_padding))"

text \<open>Line 62: \<^verbatim>\<open>int(255 * (i / feather))\<close>, in floats.\<close>

definition color :: "int \<Rightarrow> int \<Rightarrow> int" where
  "color feather i = py_int (fl (255 * fl (of_int i / of_int feather)))"

text \<open>Lines 68 to 73.\<close>

definition feather_box :: "box \<Rightarrow> int \<Rightarrow> box" where
  "feather_box solid inset =
     (case solid of (x0, y0, x1, y1) \<Rightarrow> (x0 - inset, y0 - inset, x1 + inset, y1 + inset))"

definition draw :: "string \<Rightarrow> nat raster \<Rightarrow> box \<Rightarrow> int \<Rightarrow> error + nat raster" where
  "draw shape msk xy fill =
     (if shape = ''circle'' then draw_ellipse msk xy fill else draw_rectangle msk xy fill)"

text \<open>Lines 60 to 78: the loop over \<^verbatim>\<open>range(feather)\<close>; a draw that raises ends it.\<close>

fun feather_loop :: "string \<Rightarrow> box \<Rightarrow> int \<Rightarrow> int list \<Rightarrow> nat raster \<Rightarrow> error + nat raster" where
  "feather_loop shape solid feather [] msk = Inr msk"
| "feather_loop shape solid feather (i # is) msk =
     (case draw shape msk (feather_box solid (feather - i)) (color feather i) of
        Inl e \<Rightarrow> Inl e
      | Inr msk' \<Rightarrow> feather_loop shape solid feather is msk')"

text \<open>Lines 46 to 85: the mask of an image of the given size.\<close>

definition build_mask :: "nat \<times> nat \<Rightarrow> int \<Rightarrow> string \<Rightarrow> int \<Rightarrow> error + nat raster" where
  "build_mask sz feather shape shape_padding =
     (let msk = new_L sz 0;
          solid = solid_shape_box (width msk, height msk) shape_padding
      in case feather_loop shape solid feather (py_range feather) msk of
           Inl e \<Rightarrow> Inl e
         | Inr msk' \<Rightarrow> draw shape msk' solid 255)"

definition create_feathered_image ::
  "image \<Rightarrow> bool \<Rightarrow> int \<Rightarrow> int \<Rightarrow> int \<Rightarrow> string \<Rightarrow> int \<Rightarrow> error + rgba raster" where
  "create_feathered_image im square offset_x offset_y feather shape shape_padding =
     (case crop_step im square offset_x offset_y of
        Inl e \<Rightarrow> Inl e
      | Inr cropped \<Rightarrow>
          (let cropped_image = convert_RGBA cropped
           in case build_mask (width cropped_image, height cropped_image)
                     feather shape shape_padding of
                Inl e \<Rightarrow> Inl e
              | Inr msk \<Rightarrow> putalpha cropped_image msk))"

section \<open>The batch driver \<^verbatim>\<open>process\<close>\<close>

text \<open>
  The folder the driver works on: its entries, and the \<^verbatim>\<open>processed\<close> sub-folder, which
  is \<open>None\<close> until \<^verbatim>\<open>mkdir\<close> creates it and then maps the name of each saved PNG to
  its image. An entry whose file Pillow cannot open has no \<open>content\<close>. \<open>echoed\<close> counts
  the lines written with \<^verbatim>\<open>click.echo\<close>.
\<close>

record entry =
  stem :: string
  suffix :: string
  is_file :: bool
  content :: "image option"

record folder =
  entries :: "entry list"
  processed :: "(string \<rightharpoonup> rgba raster) option"
  echoed :: nat

definition SUPPORTED_EXTENSIONS :: "string list" where
  "SUPPORTED_EXTENSIONS = [''.png'', ''.jpg'', ''.jpeg'', ''.bmp'', ''.gif'', ''.tiff'']"

definition lower_char :: "char \<Rightarrow> char" where
  "lower_char c =
     (let n = (of_char c :: nat) in if 65 \<le> n \<and> n \<le> 90 then char_of (n + 32) else c)"

definition lower :: "string \<Rightarrow> string" where
  "lower s = map lower_char s"

definition echo :: "folder \<Rightarrow> folder" where
  "echo fs = fs\<lparr>echoed := echoed fs + 1\<rparr>"

definition mkdir_processed :: "folder \<Rightarrow> folder" where
  "mkdir_processed fs =
     (case processed fs of None \<Rightarrow> fs\<lparr>processed := Some Map.empty\<rparr> | Some d \<Rightarrow> fs)"

definition save_png :: "folder \<Rightarrow> string \<Rightarrow> rgba raster \<Rightarrow> folder" where
  "save_png fs name im =
     (case processed fs of
        None \<Rightarrow> fs
      | Some d \<Rightarrow> fs\<lparr>processed := Some (d(name \<mapsto> im))\<rparr>)"

text \<open>
  Lines 143 to 164: one image after the other; any exception of an image is caught and
  reported, and the loop goes on.
\<close>

fun process_images ::
  "entry list \<Rightarrow> bool \<Rightarrow> int \<Rightarrow> int \<Rightarrow> int \<Rightarrow> string \<Rightarrow> int \<Rightarrow> folder \<Rightarrow> folder" where
  "process_images [] square offset_x offset_y feather shape shape_padding fs = fs"
| "process_images (p # ps) square offset_x offset_y feather shape shape_padding fs =
     process_images ps square offset_x offset_y feather shape shape_padding
       (case content p of
          None \<Rightarrow> echo fs
        | Some img \<Rightarrow>
            (case create_feathered_image img square offset_x offset_y feather shape
                    shape_padding of
               Inl e \<Rightarrow> echo fs
             | Inr processed_image \<Rightarrow> save_png fs (stem p) processed_image))"

text \<open>
  Lines 121 to 166. The result is the folder as the driver leaves it, with the exception
  that ended the run, if any.
\<close>

definition process ::
  "folder \<Rightarrow> bool \<Rightarrow> int \<Rightarrow> int \<Rightarrow> int \<Rightarrow> string \<Rightarrow> int \<Rightarrow> folder \<times> error option" where
  "process fs square offset_x offset_y feather shape shape_padding =
     (if shape_padding \<le> feather then (fs, Some BadParameter)
      else
        let fs1 = echo (echo (mkdir_processed fs));
            image_files =
              filter (\<lambda>p. is_file p \<and> lower (suffix p) \<in> set SUPPORTED_EXTENSIONS) (entries fs)
        in if image_files = [] then (echo fs1, None)
           else (echo (process_images image_files square offset_x offset_y feather shape
                         shape_padding fs1), None))"

text \<open>The channels of an RGBA pixel.\<close>

definition red :: "rgba \<Rightarrow> nat" where "red p = (case p of (r, g, b, a) \<Rightarrow> r)"
definition green :: "rgba \<Rightarrow> nat" where "green p = (case p of (r, g, b, a) \<Rightarrow> g)"
definition blue :: "rgba \<Rightarrow> nat" where "blue p = (case p of (r, g, b, a) \<Rightarrow> b)"
definition alpha :: "rgba \<Rightarrow> nat" where "alpha p = (case p of (r, g, b, a) \<Rightarrow> a)"

text \<open>The cells a shape covers, and the value of a cell of a result.\<close>

definition shape_covers :: "string \<Rightarrow> box \<Rightarrow> nat \<Rightarrow> nat \<Rightarrow> bool" where
  "shape_covers shape = (if shape = ''circle'' then in_ellipse else in_box)"

definition result_pixel :: "error + 'p raster \<Rightarrow> nat \<Rightarrow> nat \<Rightarrow> error + 'p" where
  "result_pixel r x y = (case r of Inl e \<Rightarrow> Inl e | Inr im \<Rightarrow> Inr (getpixel im x y))"

definition result_size :: "error + 'p raster \<Rightarrow> error + nat \<times> nat" where
  "result_size r = (case r of Inl e \<Rightarrow> Inl e | Inr im \<Rightarrow> Inr (width im, height im))"

text \<open>
  The value the gradient loop leaves in one cell that held \<open>v\<close>: each ring that covers
  the cell overwrites it, in the order of the loop.
\<close>

fun loop_cell :: "string \<Rightarrow> box \<Rightarrow> int \<Rightarrow> int list \<Rightarrow> nat \<Rightarrow> nat \<Rightarrow> nat \<Rightarrow> nat" where
  "loop_cell shape solid feather [] v x y = v"
| "loop_cell shape solid feather (i # is) v x y =
     loop_cell shape solid feather is
       (if shape_covers shape (feather_box solid (feather - i)) x y
        then clip8 (color feather i) else v) x y"

section \<open>Basic facts about rasters\<close>

lemma width_new_raster [simp]: "width (new_raster w h f) = w"
  by (simp add: new_raster_def)

lemma height_new_raster [simp]: "height (new_raster w h f) = h"
  by (simp add: new_raster_def)

lemma getpixel_new_raster [simp]:
  "x < w \<Longrightarrow> y < h \<Longrightarrow> getpixel (new_raster w h f) x y = f x y"
  by (simp add: new_raster_def getpixel_def)


section \<open>Drawing on the mask\<close>

lemma draw_eq: "draw shape msk xy fill = draw_shape (shape_covers shape) msk xy fill"
  by (simp add: draw_def shape_covers_def draw_ellipse_def draw_rectangle_def)

lemma draw_InrD:
  assumes "draw shape msk xy fill = Inr msk'"
  shows "width msk' = width msk" and "height msk' = height msk"
    and "x < width msk \<Longrightarrow> y < height msk \<Longrightarrow>
         getpixel msk' x y = (if shape_covers shape xy x y then clip8 fill else getpixel msk x y)"
  using assms
  by (auto simp: draw_eq draw_shape_def split: prod.splits if_splits)

lemma draw_ok:
  "draw shape msk (x0, y0, x1, y1) fill = Inr msk' \<Longrightarrow> x0 \<le> x1 \<and> y0 \<le> y1"
  by (auto simp: draw_eq draw_shape_def split: if_splits)

lemma draw_Inr:
  "x0 \<le> x1 \<Longrightarrow> y0 \<le> y1 \<Longrightarrow> \<exists>msk'. draw shape msk (x0, y0, x1, y1) fill = Inr msk'"
  by (simp add: draw_eq draw_shape_def)

lemma feather_loop_size:
  "feather_loop shape solid feather is msk = Inr msk' \<Longrightarrow>
   width msk' = width msk \<and> height msk' = height msk"
proof (induction "is" arbitrary: msk)
  case Nil
  then show ?case by simp
next
  case (Cons i "is")
  then show ?case
    by (auto split: sum.splits dest: draw_InrD(1,2))
qed

lemma feather_loop_cell:
  "feather_loop shape solid feather is msk = Inr msk' \<Longrightarrow> x < width msk \<Longrightarrow> y < height msk \<Longrightarrow>
   getpixel msk' x y = loop_cell shape solid feather is (getpixel msk x y) x y"
proof (induction "is" arbitrary: msk)
  case Nil
  then show ?case by simp
next
  case (Cons i "is")
  from Cons.prems(1) obtain m1 where
    d: "draw shape msk (feather_box solid (feather - i)) (color feather i) = Inr m1"
    and l: "feather_loop shape solid feather is m1 = Inr msk'"
    by (auto split: sum.splits)
  have sz: "width m1 = width msk" "height m1 = height msk"
    using draw_InrD(1,2) [OF d] by simp_all
  have "getpixel msk' x y = loop_cell shape solid feather is (getpixel m1 x y) x y"
    using Cons.IH [OF l] Cons.prems(2,3) sz by simp
  then show ?case
    using draw_InrD(3) [OF d Cons.prems(2,3)] by simp
qed

lemma build_mask_InrD:
  assumes "build_mask (w, h) feather shape shape_padding = Inr m"
  shows "width m = w" and "height m = h"
    and "x < w \<Longrightarrow> y < h \<Longrightarrow>
         getpixel m x y =
           (if shape_covers shape (solid_shape_box (w, h) shape_padding) x y then 255
            else loop_cell shape (solid_shape_box (w, h) shape_padding) feather
                   (py_range feather) 0 x y)"
proof -
  let ?solid = "solid_shape_box (w, h) shape_padding"
  from assms obtain m1 where
    l: "feather_loop shape ?solid feather (py_range feather) (new_L (w, h) 0) = Inr m1"
    and d: "draw shape m1 ?solid 255 = Inr m"
    by (auto simp: build_mask_def new_L_def Let_def split: sum.splits)
  have sz: "width m1 = w" "height m1 = h"
    using feather_loop_size [OF l] by (simp_all add: new_L_def)
  show "width m = w" "height m = h"
    using draw_InrD(1,2) [OF d] sz by simp_all
  show "getpixel m x y =
           (if shape_covers shape ?solid x y then 255
            else loop_cell shape ?solid feather (py_range feather) 0 x y)"
    if "x < w" "y < h"
    using draw_InrD(3) [OF d, of x y] feather_loop_cell [OF l, of x y] that sz
    by (simp add: new_L_def clip8_def)
qed

lemma feather_loop_Inr:
  assumes "x0 \<le> x1" and "y0 \<le> y1" and "\<forall>i\<in>set is. i \<le> feather"
  shows "\<exists>msk'. feather_loop shape (x0, y0, x1, y1) feather is msk = Inr msk'"
  using assms(3)
proof (induction "is" arbitrary: msk)
  case Nil
  then show ?case by simp
next
  case (Cons i "is")
  have "x0 - (feather - i) \<le> x1 + (feather - i)" "y0 - (feather - i) \<le> y1 + (feather - i)"
    using assms(1,2) Cons.prems by simp_all
  then obtain m1 where
    "draw shape msk (x0 - (feather - i), y0 - (feather - i), x1 + (feather - i),
       y1 + (feather - i)) (color feather i) = Inr m1"
    using draw_Inr by blast
  then show ?case using Cons by (simp add: feather_box_def)
qed

lemma build_mask_Inr:
  assumes "2 * shape_padding \<le> int w" and "2 * shape_padding \<le> int h"
  shows "\<exists>m. build_mask (w, h) feather shape shape_padding = Inr m"
proof -
  have b: "shape_padding \<le> int w - shape_padding" "shape_padding \<le> int h - shape_padding"
    using assms by simp_all
  have "\<forall>i\<in>set (py_range feather). i \<le> feather"
    by (auto simp: py_range_def)
  from feather_loop_Inr [OF b this] obtain m1 where
    "feather_loop shape (shape_padding, shape_padding, int w - shape_padding,
       int h - shape_padding) feather (py_range feather) (new_L (w, h) 0) = Inr m1"
    by blast
  moreover obtain m where
    "draw shape m1 (shape_padding, shape_padding, int w - shape_padding,
       int h - shape_padding) 255 = Inr m"
    using draw_Inr [OF b] by blast
  moreover have "width m1 = w" "height m1 = h"
    using feather_loop_size [OF calculation(1)] by (simp_all add: new_L_def)
  ultimately show ?thesis
    by (simp add: build_mask_def solid_shape_box_def new_L_def)
qed

lemma build_mask_fits:
  assumes "build_mask (w, h) feather shape shape_padding = Inr m"
  shows "2 * shape_padding \<le> int w \<and> 2 * shape_padding \<le> int h"
proof -
  from assms obtain m1 where
    l: "feather_loop shape (solid_shape_box (w, h) shape_padding) feather (py_range feather)
          (new_L (w, h) 0) = Inr m1"
    and d: "draw shape m1 (solid_shape_box (w, h) shape_padding) 255 = Inr m"
    by (auto simp: build_mask_def new_L_def Let_def split: sum.splits)
  from d draw_ok [of shape m1 shape_padding shape_padding "int w - shape_padding"
      "int h - shape_padding" 255 m]
  show ?thesis by (simp add: solid_shape_box_def)
qed

section \<open>The solid interior\<close>

text \<open>
  C1, as the code has it. When the mask is built, every cell of the solid shape is
  exactly 255: for the rectangle the solid shape is the whole solid box, corners
  included; for the circle it is the ellipse inscribed in the solid box, so the corners
  of the box are left out.
\<close>

theorem solid_shape_is_255:
  assumes "feather < shape_padding"
    and "build_mask (w, h) feather shape shape_padding = Inr m"
    and "x < w" and "y < h"
    and "if shape = ''circle'' then in_ellipse (solid_shape_box (w, h) shape_padding) x y
         else in_box (solid_shape_box (w, h) shape_padding) x y"
  shows "getpixel m x y = 255"
  using assms(5) build_mask_InrD(3) [OF assms(2,3,4)]
  by (simp add: shape_covers_def split: if_splits)

theorem solid_shape_is_255_witness:
  "(1::int) < 2 \<and> (5::nat) < 10 \<and>
   in_ellipse (solid_shape_box (10, 10) 2) 5 5 \<and>
   in_box (solid_shape_box (10, 10) 2) 2 2 \<and>
   result_pixel (build_mask (10, 10) 1 ''circle'' 2) 5 5 = Inr 255 \<and>
   result_pixel (build_mask (10, 10) 1 ''rectangle'' 2) 2 2 = Inr 255"
proof -
  obtain m where m: "build_mask (10, 10) 1 ''circle'' 2 = Inr m"
    using build_mask_Inr [of 2 10 10 1 "''circle''"] by auto
  obtain m' where m': "build_mask (10, 10) 1 ''rectangle'' 2 = Inr m'"
    using build_mask_Inr [of 2 10 10 1 "''rectangle''"] by auto
  have e: "in_ellipse (solid_shape_box (10, 10) 2) 5 5"
    by (simp add: in_ellipse_def in_box_def solid_shape_box_def)
  have b: "in_box (solid_shape_box (10, 10) 2) 2 2"
    by (simp add: in_box_def solid_shape_box_def)
  have "getpixel m 5 5 = 255"
    using solid_shape_is_255 [OF _ m, of 5 5] e by simp
  moreover have "getpixel m' 2 2 = 255"
    using solid_shape_is_255 [OF _ m', of 2 2] b by simp
  ultimately show ?thesis
    using e b by (simp add: result_pixel_def m m')
qed

text \<open>
  The claim as stated fails for the circle: the corner cell \<open>(2, 2)\<close> of the solid box of
  a 10 by 10 mask with padding 2 and feather 1 lies outside every ellipse that is drawn
  and keeps the value 0.
\<close>

theorem solid_box_corner_counterexample:
  "(1::int) < 2 \<and> in_box (solid_shape_box (10, 10) 2) 2 2 \<and>
   result_pixel (build_mask (10, 10) 1 ''circle'' 2) 2 2 = Inr 0"
proof -
  obtain m where m: "build_mask (10, 10) 1 ''circle'' 2 = Inr m"
    using build_mask_Inr [of 2 10 10 1 "''circle''"] by auto
  have "getpixel m 2 2 = 0"
    using build_mask_InrD(3) [OF m, of 2 2]
    by (simp add: shape_covers_def in_ellipse_def in_box_def solid_shape_box_def
        feather_box_def py_range_def)
  then show ?thesis
    by (simp add: result_pixel_def m in_box_def solid_shape_box_def)
qed

section \<open>Compositing\<close>

text \<open>
  C5. Applying a mask of the raster's size to its alpha channel succeeds, keeps the size
  and leaves the red, green and blue value of every pixel as it was; the alpha of each
  pixel becomes the value of the mask at that cell.
\<close>

theorem putalpha_preserves_color:
  assumes "width msk = width im" and "height msk = height im"
  shows "\<exists>out. putalpha im msk = Inr out \<and> width out = width im \<and> height out = height im \<and>
           (\<forall>x<width im. \<forall>y<height im.
              red (getpixel out x y) = red (getpixel im x y) \<and>
              green (getpixel out x y) = green (getpixel im x y) \<and>
              blue (getpixel out x y) = blue (getpixel im x y) \<and>
              alpha (getpixel out x y) = getpixel msk x y)"
  using assms
  by (auto simp: putalpha_def red_def green_def blue_def alpha_def split: prod.splits)

theorem putalpha_preserves_color_witness:
  "width (new_raster 2 1 (\<lambda>x y. 7 :: nat)) = width (new_raster 2 1 (\<lambda>x y. (10, 20, 30, 40) :: rgba)) \<and>
   height (new_raster 2 1 (\<lambda>x y. 7 :: nat)) = height (new_raster 2 1 (\<lambda>x y. (10, 20, 30, 40) :: rgba)) \<and>
   (\<exists>out. putalpha (new_raster 2 1 (\<lambda>x y. (10, 20, 30, 40))) (new_raster 2 1 (\<lambda>x y. 7)) = Inr out \<and>
      (\<forall>x<2. \<forall>y<1. red (getpixel out x y) = 10 \<and> green (getpixel out x y) = 20 \<and>
         blue (getpixel out x y) = 30 \<and> alpha (getpixel out x y) = 7))"
  using putalpha_preserves_color
    [of "new_raster 2 1 (\<lambda>x y. 7)" "new_raster 2 1 (\<lambda>x y. (10, 20, 30, 40))"]
  by (auto simp: red_def green_def blue_def alpha_def)

section \<open>Configuration check of the driver\<close>

text \<open>
  C6. When the shape padding is not larger than the feather, \<^verbatim>\<open>process\<close> raises
  \<^verbatim>\<open>BadParameter\<close> at once: the folder is left exactly as it was, so no directory is
  created, no image is processed and no output is written.
\<close>

theorem process_rejects_small_padding:
  assumes "shape_padding \<le> feather"
  shows "process fs square offset_x offset_y feather shape shape_padding = (fs, Some BadParameter)"
  using assms by (simp add: process_def)

theorem process_rejects_small_padding_witness:
  "(5::int) \<le> 10 \<and>
   process \<lparr>entries = [\<lparr>stem = ''a'', suffix = ''.png'', is_file = True, content = None\<rparr>],
            processed = None, echoed = 0\<rparr> True 0 0 10 ''circle'' 5 =
     (\<lparr>entries = [\<lparr>stem = ''a'', suffix = ''.png'', is_file = True, content = None\<rparr>],
       processed = None, echoed = 0\<rparr>, Some BadParameter)"
  using process_rejects_small_padding
    [of 5 10 "\<lparr>entries = [\<lparr>stem = ''a'', suffix = ''.png'', is_file = True, content = None\<rparr>],
            processed = None, echoed = 0\<rparr>" True 0 0 "''circle''"]
  by simp

end
